theory Spec2Isabelle
  imports Main
begin

section \<open>Data model\<close>

text \<open>
  The four stage classes of \<^verbatim>\<open>dspy_code_gen.py\<close>. Each wraps one
  \<^verbatim>\<open>dspy.ChainOfThought\<close> program with a fixed field contract.
\<close>

datatype stage = CodeSignatureGenerator | CodeGenerator | UnitTestGenerator | CodeFixer

text \<open>
  \<^verbatim>\<open>dspy.Example(**x).with_inputs(*input_fields)\<close>: the example keeps every key of the
  dictionary \<open>x\<close>; \<open>with_inputs\<close> only records which keys are inputs.
\<close>

record example =
  store :: "(string \<times> string) list"
  input_keys :: "string list"

definition Example :: "(string \<times> string) list \<Rightarrow> example" where
  "Example x = \<lparr>store = x, input_keys = []\<rparr>"

definition with_inputs :: "string list \<Rightarrow> example \<Rightarrow> example" where
  "with_inputs input_fields ex = ex\<lparr>input_keys := input_fields\<rparr>"

text \<open>
  A stage module instance is either freshly constructed (\<^verbatim>\<open>CodeFixer()\<close>) or the result
  of \<^verbatim>\<open>BootstrapFewShot().compile(module_class(), trainset=examples)\<close>, which carries the
  training set it was primed with.
\<close>

datatype dspy_module = Unprimed stage | Primed stage "example list"

fun is_primed :: "dspy_module \<Rightarrow> bool" where
  "is_primed (Unprimed c) = False"
| "is_primed (Primed c trainset) = True"

text \<open>The prediction of the unit test stage: its three declared output fields.\<close>

record test_result =
  test_1 :: string
  test_2 :: string
  edge_case_test_1 :: string

text \<open>The attributes of a \<^verbatim>\<open>CodeGenerationPipeline\<close> object.\<close>

record pipeline =
  examples :: "(string \<times> string) list list"
  trained_signature :: dspy_module
  trained_code_gen :: dspy_module
  trained_unit_test :: dspy_module
  trained_code_fixer :: dspy_module

text \<open>
  Exceptions that leave the program. \<open>StageError\<close> is whatever a stage invocation raises
  (endpoint failure, malformed response); \<open>PrimingError\<close> is whatever
  \<^verbatim>\<open>BootstrapFewShot().compile\<close> raises; \<open>SandboxAbort\<close> is an exception raised by executed
  text that is not an \<^verbatim>\<open>Exception\<close> (so \<^verbatim>\<open>except Exception\<close> does not catch it).
\<close>

datatype error =
    TypeError string
  | IndexError string
  | PrimingError stage string
  | StageError stage string
  | SandboxAbort string

text \<open>What \<^verbatim>\<open>exec(text)\<close> does: return, raise an \<^verbatim>\<open>Exception\<close> \<open>e\<close> (carried as \<^verbatim>\<open>str(e)\<close>),
  or raise some other \<^verbatim>\<open>BaseException\<close>.\<close>

datatype exec_outcome = Returned | RaisedException string | RaisedBaseException string

text \<open>
  The observable actions of a run, in the order they happen: a line printed, a text handed
  to \<^verbatim>\<open>exec\<close>, a module compiled by the bootstrapper, a stage module called with its
  keyword arguments (in the order the source writes them).
\<close>

datatype event =
    Printed string
  | Executed string
  | Compiled stage "example list"
  | Called stage "string list"

text \<open>
  The state threaded through the program: \<open>world\<close> is everything the external
  collaborators may read and change (the model endpoint, its cache, the interpreter's
  namespaces that executed text defines names in); \<open>log\<close> is the trace of events so far.
\<close>

record 'w pstate =
  world :: 'w
  log :: "event list"

text \<open>
  The external collaborators, taken as parameters: the \<^verbatim>\<open>dotenv\<close> loader, the
  bootstrapper (\<open>Some msg\<close> when compiling raises), one forward call per stage class
  (\<open>Inl msg\<close> when the call raises), and the interpreter's \<^verbatim>\<open>exec\<close>.
\<close>

record 'w collaborators =
  load_dotenv :: "(string \<rightharpoonup> string) \<Rightarrow> (string \<rightharpoonup> string)"
  bootstrap_few_shot :: "stage \<Rightarrow> example list \<Rightarrow> 'w \<Rightarrow> string option \<times> 'w"
  signature_forward :: "dspy_module \<Rightarrow> string \<Rightarrow> 'w \<Rightarrow> (string + string) \<times> 'w"
  code_forward :: "dspy_module \<Rightarrow> string \<Rightarrow> string \<Rightarrow> 'w \<Rightarrow> (string + string) \<times> 'w"
  tests_forward :: "dspy_module \<Rightarrow> string \<Rightarrow> string \<Rightarrow> 'w \<Rightarrow> (string + test_result) \<times> 'w"
  fixer_forward ::
    "dspy_module \<Rightarrow> string \<Rightarrow> string \<Rightarrow> string \<Rightarrow> string \<Rightarrow> 'w \<Rightarrow> (string + string) \<times> 'w"
  sandbox :: "string \<Rightarrow> 'w \<Rightarrow> exec_outcome \<times> 'w"

text \<open>How a call of the program ends: it returns, an exception propagates out of it, or
  the recursion budget of the model is used up while it is still running.\<close>

datatype run_result = Completed | Propagated error | OutOfFuel

section \<open>Printing and executing\<close>

definition emit :: "event \<Rightarrow> 'w pstate \<Rightarrow> 'w pstate" where
  "emit e s = s\<lparr>log := log s @ [e]\<rparr>"

definition print :: "string \<Rightarrow> 'w pstate \<Rightarrow> 'w pstate" where
  "print txt s = emit (Printed txt) s"

definition exec :: "'w collaborators \<Rightarrow> string \<Rightarrow> 'w pstate \<Rightarrow> exec_outcome \<times> 'w pstate" where
  "exec lib txt s =
     (case sandbox lib txt (world s) of
        (r, w) \<Rightarrow> (r, emit (Executed txt) (s\<lparr>world := w\<rparr>)))"

section \<open>Calling a stage module\<close>

text \<open>
  A call \<^verbatim>\<open>module(**kwargs)\<close> of a stage module: the forward call \<open>f\<close> runs against the
  world, the call is recorded with its arguments, and an exception of the call becomes
  the \<open>StageError\<close> of that stage.
\<close>

definition called ::
  "stage \<Rightarrow> string list \<Rightarrow> ('w \<Rightarrow> (string + 'a) \<times> 'w) \<Rightarrow> 'w pstate
     \<Rightarrow> (error + 'a) \<times> 'w pstate" where
  "called c args f s =
     (case f (world s) of
        (r, w) \<Rightarrow>
          (let s' = emit (Called c args) (s\<lparr>world := w\<rparr>)
           in case r of
                Inl msg \<Rightarrow> (Inl (StageError c msg), s')
              | Inr v \<Rightarrow> (Inr v, s')))"

section \<open>The repair call\<close>

text \<open>\<^verbatim>\<open>_fix_code\<close>: one call of the fixer module; its exception propagates.\<close>

definition fix_code ::
  "'w collaborators \<Rightarrow> pipeline \<Rightarrow> string \<Rightarrow> string \<Rightarrow> string \<Rightarrow> string \<Rightarrow> 'w pstate
     \<Rightarrow> (error + string) \<times> 'w pstate" where
  "fix_code lib self task old_code failed_test error_message s =
     called CodeFixer [task, old_code, failed_test, error_message]
       (fixer_forward lib (trained_code_fixer self) task old_code failed_test error_message) s"

section \<open>Validation and the repair loop\<close>

text \<open>
  The \<^verbatim>\<open>for\<close> loop over the three named tests of \<^verbatim>\<open>_run_code_and_tests\<close>. The loop is
  left at the first test that raises; what the handler then does (repair and re-entry)
  is in \<open>run_code_and_tests\<close> below, the loop reports which test it was.
\<close>

datatype loop_exit =
    AllPassed
  | TestRaised string string string
  | TestAborted string

fun run_tests ::
  "'w collaborators \<Rightarrow> (string \<times> string) list \<Rightarrow> 'w pstate \<Rightarrow> loop_exit \<times> 'w pstate" where
  "run_tests lib [] s = (AllPassed, s)"
| "run_tests lib ((test_name, test_code) # rest) s =
     (case exec lib test_code s of
        (Returned, s') \<Rightarrow> run_tests lib rest s'
      | (RaisedException e, s') \<Rightarrow> (TestRaised test_name test_code e, s')
      | (RaisedBaseException e, s') \<Rightarrow> (TestAborted e, s'))"

text \<open>The list the loop runs over: the three tests under their names, in this order.\<close>

definition named_tests :: "test_result \<Rightarrow> (string \<times> string) list" where
  "named_tests tr =
     [(''test_1'', test_1 tr), (''test_2'', test_2 tr),
      (''edge_case_test_1'', edge_case_test_1 tr)]"

definition nl :: string where
  "nl = [CHR 0x0A]"

text \<open>
  \<^verbatim>\<open>_run_code_and_tests\<close>. The source re-enters itself after every repair, with no bound;
  the first argument of the model is the number of entries still allowed, and a call
  with none left reports \<open>OutOfFuel\<close> together with the state reached.
\<close>

fun run_code_and_tests ::
  "nat \<Rightarrow> 'w collaborators \<Rightarrow> pipeline \<Rightarrow> string \<Rightarrow> string \<Rightarrow> test_result \<Rightarrow> 'w pstate
     \<Rightarrow> run_result \<times> 'w pstate" where
  "run_code_and_tests 0 lib self task code tr s = (OutOfFuel, s)"
| "run_code_and_tests (Suc n) lib self task code tr s =
     (case exec lib code (print (nl @ ''Running the code...'') s) of
        (RaisedException e, s1) \<Rightarrow>
          (case fix_code lib self task code ''main code'' e
                  (print ''Re-generating the code with the execution feedback...''
                    (print (''Code failed with error: '' @ e) s1)) of
             (Inl err, s2) \<Rightarrow> (Propagated err, s2)
           | (Inr fixed_code, s2) \<Rightarrow>
               run_code_and_tests n lib self task fixed_code tr
                 (print (nl @ ''Fixed code:'' @ nl @ fixed_code) s2))
      | (RaisedBaseException e, s1) \<Rightarrow> (Propagated (SandboxAbort e), s1)
      | (Returned, s1) \<Rightarrow>
          (case run_tests lib (named_tests tr) (print ''Running the tests...'' s1) of
             (TestRaised test_name test_code e, s2) \<Rightarrow>
               (case fix_code lib self task code test_code e
                       (print ''Re-generating the code with the execution feedback...''
                         (print (''Test '' @ test_name @ '' failed with error: '' @ e) s2)) of
                  (Inl err, s3) \<Rightarrow> (Propagated err, s3)
                | (Inr fixed_code, s3) \<Rightarrow>
                    run_code_and_tests n lib self task fixed_code tr
                      (print (nl @ ''Fixed code:'' @ nl @ fixed_code) s3))
           | (TestAborted e, s2) \<Rightarrow> (Propagated (SandboxAbort e), s2)
           | (AllPassed, s2) \<Rightarrow> (Completed, print ''All generated tests passed'' s2)))"

section \<open>Generation\<close>

text \<open>\<^verbatim>\<open>_print_results\<close>: six calls of \<^verbatim>\<open>print\<close>, in this order.\<close>

definition print_results :: "string \<Rightarrow> string \<Rightarrow> test_result \<Rightarrow> 'w pstate \<Rightarrow> 'w pstate" where
  "print_results code_signature code tr s =
     print (''edge_case_test_1: '' @ edge_case_test_1 tr)
       (print (''test_2: '' @ test_2 tr)
         (print (''test_1: '' @ test_1 tr)
           (print (nl @ ''Generated tests:'')
             (print (nl @ ''Generated code:'' @ nl @ code)
               (print (nl @ ''Generated code signature:'' @ nl @ code_signature) s)))))"

text \<open>The three prompts that \<^verbatim>\<open>generate\<close> builds from the task.\<close>

definition signature_task :: "string \<Rightarrow> string" where
  "signature_task task =
     ''Write the signature for a Python function doing the following (if the function uses classes, also include the class definition and their methods): ''
       @ task"

definition code_task :: "string \<Rightarrow> string" where
  "code_task task = ''Write '' @ task @ '' with the provided code signature''"

definition tests_task :: "string \<Rightarrow> string" where
  "tests_task task =
     ''Generate unit tests for the following task with the provided code signature: '' @ task"

text \<open>
  \<^verbatim>\<open>generate\<close>: signature, then code, then tests, each from one call; the results are
  printed and handed to \<open>run_code_and_tests\<close>, which gets the task as given.
\<close>

definition generate ::
  "nat \<Rightarrow> 'w collaborators \<Rightarrow> pipeline \<Rightarrow> string \<Rightarrow> 'w pstate \<Rightarrow> run_result \<times> 'w pstate" where
  "generate fuel lib self task s =
     (case called CodeSignatureGenerator [signature_task task]
             (signature_forward lib (trained_signature self) (signature_task task)) s of
        (Inl err, s1) \<Rightarrow> (Propagated err, s1)
      | (Inr code_signature, s1) \<Rightarrow>
          (case called CodeGenerator [code_task task, code_signature]
                  (code_forward lib (trained_code_gen self) (code_task task) code_signature) s1 of
             (Inl err, s2) \<Rightarrow> (Propagated err, s2)
           | (Inr code, s2) \<Rightarrow>
               (case called UnitTestGenerator [tests_task task, code_signature]
                       (tests_forward lib (trained_unit_test self) (tests_task task)
                          code_signature) s2 of
                  (Inl err, s3) \<Rightarrow> (Propagated err, s3)
                | (Inr tr, s3) \<Rightarrow>
                    run_code_and_tests fuel lib self task code tr
                      (print_results code_signature code tr s3))))"

section \<open>Pipeline construction\<close>

text \<open>
  \<^verbatim>\<open>_compile_module\<close>: every dictionary of the example bank becomes an example with the
  given input fields marked, and the bootstrapper compiles a fresh module of the class
  against them. An exception of the bootstrapper propagates.
\<close>

definition compile_module ::
  "'w collaborators \<Rightarrow> (string \<times> string) list list \<Rightarrow> stage \<Rightarrow> string list \<Rightarrow> 'w pstate
     \<Rightarrow> (error + dspy_module) \<times> 'w pstate" where
  "compile_module lib self_examples module_class input_fields s =
     (let trainset = map (\<lambda>x. with_inputs input_fields (Example x)) self_examples
      in case bootstrap_few_shot lib module_class trainset (world s) of
           (r, w) \<Rightarrow>
             (let s' = emit (Compiled module_class trainset) (s\<lparr>world := w\<rparr>)
              in case r of
                   Some msg \<Rightarrow> (Inl (PrimingError module_class msg), s')
                 | None \<Rightarrow> (Inr (Primed module_class trainset), s')))"

text \<open>\<^verbatim>\<open>CodeGenerationPipeline.__init__\<close>: three modules are compiled, the fixer is
  constructed and stored as it is.\<close>

definition init ::
  "'w collaborators \<Rightarrow> (string \<times> string) list list \<Rightarrow> 'w pstate
     \<Rightarrow> (error + pipeline) \<times> 'w pstate" where
  "init lib exs s =
     (case compile_module lib exs CodeSignatureGenerator [''task''] s of
        (Inl err, s1) \<Rightarrow> (Inl err, s1)
      | (Inr m_signature, s1) \<Rightarrow>
          (case compile_module lib exs CodeGenerator [''task'', ''code_signature''] s1 of
             (Inl err, s2) \<Rightarrow> (Inl err, s2)
           | (Inr m_code_gen, s2) \<Rightarrow>
               (case compile_module lib exs UnitTestGenerator [''task'', ''code_signature'']
                       s2 of
                  (Inl err, s3) \<Rightarrow> (Inl err, s3)
                | (Inr m_unit_test, s3) \<Rightarrow>
                    (Inr \<lparr>examples = exs,
                          trained_signature = m_signature,
                          trained_code_gen = m_code_gen,
                          trained_unit_test = m_unit_test,
                          trained_code_fixer = Unprimed CodeFixer\<rparr>, s3))))"

section \<open>Program start\<close>

text \<open>
  Lines 8 to 12 of the module: the \<^verbatim>\<open>.env\<close> file is loaded into the environment, then
  \<^verbatim>\<open>os.environ["OPENAI_API_KEY"] = os.getenv("OPENAI_API_KEY")\<close>. \<^verbatim>\<open>os.getenv\<close> gives
  \<^verbatim>\<open>None\<close> for a variable that is not set, and storing \<^verbatim>\<open>None\<close> in \<^verbatim>\<open>os.environ\<close> raises
  \<^verbatim>\<open>TypeError\<close>. The language model object is configured afterwards.
\<close>

record lm_config =
  model :: string
  max_tokens :: nat

definition lm :: lm_config where
  "lm = \<lparr>model = ''openai/gpt-4o'', max_tokens = 1000\<rparr>"

definition startup ::
  "'w collaborators \<Rightarrow> (string \<rightharpoonup> string) \<Rightarrow> error + ((string \<rightharpoonup> string) \<times> lm_config)" where
  "startup lib environ =
     (let env = load_dotenv lib environ
      in case env ''OPENAI_API_KEY'' of
           None \<Rightarrow> Inl (TypeError ''str expected, not NoneType'')
         | Some v \<Rightarrow> Inr (env(''OPENAI_API_KEY'' \<mapsto> v), lm))"

text \<open>Indexing \<^verbatim>\<open>sys.argv\<close>: out of range raises \<^verbatim>\<open>IndexError\<close>.\<close>

definition argv_at :: "string list \<Rightarrow> nat \<Rightarrow> error + string" where
  "argv_at argv i =
     (if i < length argv then Inr (argv ! i) else Inl (IndexError ''list index out of range''))"

definition default_task :: string where
  "default_task = ''A Python function to get the nth Fibonacci number''"

text \<open>
  The choice of the task in the main block:
  \<^verbatim>\<open>if len(sys.argv) > 2 and sys.argv[1] == "--task": task = sys.argv[2]\<close>, else the default.
  \<^verbatim>\<open>and\<close> evaluates its right operand only when the left one holds.
\<close>

definition select_task :: "string list \<Rightarrow> error + string" where
  "select_task argv =
     (if length argv > 2 then
        (case argv_at argv 1 of
           Inl err \<Rightarrow> Inl err
         | Inr a1 \<Rightarrow> if a1 = ''--task'' then argv_at argv 2 else Inr default_task)
      else Inr default_task)"

text \<open>The example bank of the main block: four dictionaries with the same six keys.\<close>

definition example_bank :: "(string \<times> string) list list" where
  "example_bank =
     [[(''task'',
         ''Write a Python function to check if a number is prime with the provided signature''),
       (''code_signature'',
         ''def is_prime(n: int) -> bool:''),
       (''code'',
         ''def is_prime(n):\<newline>    if n < 2:\<newline>        return False\<newline>    for i in range(2, int(n**0.5) + 1):\<newline>        if n % i == 0:\<newline>            return False\<newline>    return True''),
       (''test_1'',
         ''assert is_prime(2) == True''),
       (''test_2'',
         ''assert is_prime(4) == False''),
       (''edge_case_test_1'',
         ''assert is_prime(1) == False'')],
      [(''task'',
         ''Create a Python class for a simple calculator with the provided signature''),
       (''code_signature'',
         ''class Calculator { add(a: int, b: int) -> int, subtract(a: int, b: int) -> int, multiply(a: int, b: int) -> int, divide(a: int, b: int) -> int }''),
       (''code'',
         ''class Calculator:\<newline>    def add(self, a, b):\<newline>        return a + b\<newline>    def subtract(self, a, b):\<newline>        return a - b\<newline>    def multiply(self, a, b):\<newline>        return a * b\<newline>    def divide(self, a, b):\<newline>        if b != 0:\<newline>            return a / b\<newline>        else:\<newline>            raise ValueError('Cannot divide by zero')''),
       (''test_1'',
         ''assert Calculator().add(2, 3) == 5''),
       (''test_2'',
         ''assert Calculator().subtract(5, 3) == 2''),
       (''edge_case_test_1'',
         ''assert Calculator().multiply(0, 3) == 0'')],
      [(''task'',
         ''Write a Python function to reverse a string with the provided signature''),
       (''code_signature'',
         ''def reverse_string(s: str) -> str:''),
       (''code'',
         ''def reverse_string(s):\<newline>    return s[::-1]''),
       (''test_1'',
         ''assert reverse_string('hello') == 'olleh'' @ [CHR 0x27]),
       (''test_2'',
         ''assert reverse_string('Python') == 'nohtyP'' @ [CHR 0x27]),
       (''edge_case_test_1'',
         ''assert reverse_string('' @ [CHR 0x27, CHR 0x27] @ '') == '' @ [CHR 0x27, CHR 0x27])],
      [(''task'',
         ''Write a Python function to find the sum of squares of first n natural numbers with the provided signature''),
       (''code_signature'',
         ''def sum_of_squares(n: int) -> int:''),
       (''code'',
         ''def sum_of_squares(n):\<newline>    return sum(i**2 for i in range(1, n+1))''),
       (''test_1'',
         ''assert sum_of_squares(3) == 14''),
       (''test_2'',
         ''assert sum_of_squares(5) == 55''),
       (''edge_case_test_1'',
         ''assert sum_of_squares(0) == 0'')]]"

text \<open>
  The whole script: module start, pipeline construction from the example bank, choice of
  the task, generation. An exception at any step ends the program there.
\<close>

definition main ::
  "nat \<Rightarrow> 'w collaborators \<Rightarrow> (string \<rightharpoonup> string) \<Rightarrow> string list \<Rightarrow> 'w pstate
     \<Rightarrow> run_result \<times> 'w pstate" where
  "main fuel lib environ argv s =
     (case startup lib environ of
        Inl err \<Rightarrow> (Propagated err, s)
      | Inr cfg \<Rightarrow>
          (case init lib example_bank s of
             (Inl err, s1) \<Rightarrow> (Propagated err, s1)
           | (Inr pipeline, s1) \<Rightarrow>
               (case select_task argv of
                  Inl err \<Rightarrow> (Propagated err, s1)
                | Inr task \<Rightarrow> generate fuel lib pipeline task s1)))"

section \<open>Concrete collaborators\<close>

text \<open>
  A small scripted world on which the program can be run. The world is the text of the
  candidate that was executed last. Candidate \<open>v0\<close> raises when executed; under \<open>v1\<close> the
  second test divides by zero; under \<open>v2\<close> everything returns. The fixer answers \<open>v1\<close> for
  \<open>v0\<close> and \<open>v2\<close> otherwise; the synthesis stages answer the same whatever the world is.
\<close>

definition demo_tests :: test_result where
  "demo_tests =
     \<lparr>test_1 = ''assert f(1) == 1'', test_2 = ''assert f(0) == 0'',
      edge_case_test_1 = ''assert f(-1) == 0''\<rparr>"

definition demo_lib :: "string collaborators" where
  "demo_lib =
     \<lparr>load_dotenv = (\<lambda>env. env),
      bootstrap_few_shot = (\<lambda>c trainset w. (None, w)),
      signature_forward = (\<lambda>m task w. (Inr ''def f(n: int) -> int:'', w)),
      code_forward = (\<lambda>m task sg w. (Inr ''v0'', w)),
      tests_forward = (\<lambda>m task sg w. (Inr demo_tests, w)),
      fixer_forward =
        (\<lambda>m task old_code failed_test error_message w.
           (Inr (if old_code = ''v0'' then ''v1'' else ''v2''), w)),
      sandbox =
        (\<lambda>txt w.
           if txt = ''v0'' then (RaisedException ''name f is not defined'', w)
           else if txt = ''v1'' \<or> txt = ''v2'' then (Returned, txt)
           else if txt = ''assert f(0) == 0'' \<and> w = ''v1''
             then (RaisedException ''division by zero'', w)
           else (Returned, w))\<rparr>"

definition demo_pipeline :: pipeline where
  "demo_pipeline =
     \<lparr>examples = [],
      trained_signature = Primed CodeSignatureGenerator [],
      trained_code_gen = Primed CodeGenerator [],
      trained_unit_test = Primed UnitTestGenerator [],
      trained_code_fixer = Unprimed CodeFixer\<rparr>"

definition demo_start :: "string pstate" where
  "demo_start = \<lparr>world = [], log = []\<rparr>"





section \<open>Reading a trace\<close>

text \<open>The calls of the fixer in a trace, and their number.\<close>

fun is_repair :: "event \<Rightarrow> bool" where
  "is_repair (Called c args) = (c = CodeFixer)"
| "is_repair e = False"

definition repairs :: "event list \<Rightarrow> nat" where
  "repairs evs = length (filter is_repair evs)"







text \<open>The same state with the events \<open>l\<close> put in front of its trace.\<close>

definition relog :: "event list \<Rightarrow> 'w pstate \<Rightarrow> 'w pstate" where
  "relog l s = s\<lparr>log := l @ log s\<rparr>"

section \<open>The two synthesis calls in the other order\<close>


section \<open>Program start and argument handling\<close>

text \<open>
  C10. The task given on the command line is used exactly when the argument vector has at
  least three entries and the entry after the program name is \<open>--task\<close>; in every other
  case, \<open>--task\<close> as the last entry included, the default task is chosen. The choice
  never raises: the result is always \<open>Inr\<close>.
\<close>

theorem select_task_total:
  "select_task argv =
     Inr (if 3 \<le> length argv \<and> argv ! 1 = ''--task'' then argv ! 2 else default_task)
   \<and> select_task [prog, ''--task''] = Inr default_task"
  by (simp add: select_task_def argv_at_def)

theorem select_task_total_witness:
  "select_task [''dspy_code_gen.py'', ''--task'', ''A stack class''] = Inr ''A stack class''
   \<and> select_task [''dspy_code_gen.py'', ''--task''] = Inr default_task"
  using select_task_total
          [of "[''dspy_code_gen.py'', ''--task'', ''A stack class'']" "''dspy_code_gen.py''"]
  by simp

text \<open>
  C9. When the credential variable is not set in the environment once the \<^verbatim>\<open>.env\<close> file
  has been loaded, the program ends with the \<^verbatim>\<open>TypeError\<close> of line 9, in the state it
  started in: no module has been compiled and no stage has been called.
\<close>

theorem missing_credential_is_fatal:
  assumes "load_dotenv lib environ ''OPENAI_API_KEY'' = None"
  shows "main fuel lib environ argv s
           = (Propagated (TypeError ''str expected, not NoneType''), s)"
  using assms by (simp add: main_def startup_def)

theorem missing_credential_is_fatal_witness:
  "load_dotenv demo_lib Map.empty ''OPENAI_API_KEY'' = None
   \<and> main 3 demo_lib Map.empty [''dspy_code_gen.py''] demo_start
       = (Propagated (TypeError ''str expected, not NoneType''), demo_start)"
proof -
  have h: "load_dotenv demo_lib Map.empty ''OPENAI_API_KEY'' = None"
    by (simp add: demo_lib_def)
  show ?thesis
    using h missing_credential_is_fatal [OF h, of 3 "[''dspy_code_gen.py'']" demo_start]
    by simp
qed

section \<open>Pipeline construction\<close>

lemma compile_module_result:
  "compile_module lib exs c input_fields s = (Inr m, s') \<Longrightarrow>
     m = Primed c (map (\<lambda>x. with_inputs input_fields (Example x)) exs)
     \<and> log s' = log s @ [Compiled c (map (\<lambda>x. with_inputs input_fields (Example x)) exs)]"
  by (auto simp: compile_module_def Let_def emit_def split: prod.splits option.splits)

text \<open>
  C6, as stated, fails: constructing the pipeline from the example bank leaves the fixer
  module unprimed.
\<close>

theorem fixer_is_not_primed:
  "\<not> isl (fst (init demo_lib example_bank demo_start))
   \<and> \<not> is_primed (trained_code_fixer (projr (fst (init demo_lib example_bank demo_start))))"
  by (simp add: init_def compile_module_def demo_lib_def Let_def)

text \<open>
  C6, amended. A pipeline that has been constructed holds three primed modules, for
  signature, code and test synthesis, each compiled once against the whole example bank
  with its declared input fields marked on every example; the repair module is a fresh
  \<open>CodeFixer\<close> that was never handed to the bootstrapper.
\<close>

theorem init_primes_three_modules:
  assumes "init lib exs s = (Inr p, s')"
  shows "trained_signature p
           = Primed CodeSignatureGenerator (map (\<lambda>x. with_inputs [''task''] (Example x)) exs)
       \<and> trained_code_gen p
           = Primed CodeGenerator
               (map (\<lambda>x. with_inputs [''task'', ''code_signature''] (Example x)) exs)
       \<and> trained_unit_test p
           = Primed UnitTestGenerator
               (map (\<lambda>x. with_inputs [''task'', ''code_signature''] (Example x)) exs)
       \<and> trained_code_fixer p = Unprimed CodeFixer
       \<and> log s' = log s @
           [Compiled CodeSignatureGenerator (map (\<lambda>x. with_inputs [''task''] (Example x)) exs),
            Compiled CodeGenerator
              (map (\<lambda>x. with_inputs [''task'', ''code_signature''] (Example x)) exs),
            Compiled UnitTestGenerator
              (map (\<lambda>x. with_inputs [''task'', ''code_signature''] (Example x)) exs)]"
  using assms
  by (auto simp: init_def split: prod.splits sum.splits dest!: compile_module_result)

theorem init_primes_three_modules_witness:
  "init demo_lib example_bank demo_start
     = (Inr (projr (fst (init demo_lib example_bank demo_start))),
        snd (init demo_lib example_bank demo_start))
   \<and> is_primed (trained_signature (projr (fst (init demo_lib example_bank demo_start))))
   \<and> is_primed (trained_code_gen (projr (fst (init demo_lib example_bank demo_start))))
   \<and> is_primed (trained_unit_test (projr (fst (init demo_lib example_bank demo_start))))
   \<and> trained_code_fixer (projr (fst (init demo_lib example_bank demo_start)))
       = Unprimed CodeFixer
   \<and> length (log (snd (init demo_lib example_bank demo_start))) = 3"
proof -
  have h: "init demo_lib example_bank demo_start
             = (Inr (projr (fst (init demo_lib example_bank demo_start))),
                snd (init demo_lib example_bank demo_start))"
    by (simp add: init_def compile_module_def demo_lib_def Let_def)
  show ?thesis
    using h init_primes_three_modules [OF h]
    by (simp add: demo_start_def)
qed

section \<open>One validation pass\<close>

lemma world_emit [simp]: "world (emit e s) = world s"
  by (simp add: emit_def)

lemma log_emit [simp]: "log (emit e s) = log s @ [e]"
  by (simp add: emit_def)

lemma world_print [simp]: "world (print txt s) = world s"
  by (simp add: print_def)

lemma log_print [simp]: "log (print txt s) = log s @ [Printed txt]"
  by (simp add: print_def)

lemma exec_eq:
  "sandbox lib txt (world s) = (r, w) \<Longrightarrow>
     exec lib txt s = (r, \<lparr>world = w, log = log s @ [Executed txt]\<rparr>)"
  by (simp add: exec_def emit_def)

lemma fix_code_eq:
  "fix_code lib self task old_code failed_test error_message s =
     (case fixer_forward lib (trained_code_fixer self) task old_code failed_test error_message
             (world s) of
        (Inl msg, w) \<Rightarrow>
          (Inl (StageError CodeFixer msg),
           \<lparr>world = w,
            log = log s @ [Called CodeFixer [task, old_code, failed_test, error_message]]\<rparr>)
      | (Inr fixed_code, w) \<Rightarrow>
          (Inr fixed_code,
           \<lparr>world = w,
            log = log s @ [Called CodeFixer [task, old_code, failed_test, error_message]]\<rparr>))"
  by (simp add: fix_code_def called_def emit_def Let_def split: prod.splits sum.splits)

lemma print_eq: "print txt s = \<lparr>world = world s, log = log s @ [Printed txt]\<rparr>"
  by (simp add: print_def emit_def)

lemma code_raises_step:
  assumes "sandbox lib code (world s) = (RaisedException e, w)"
  shows "run_code_and_tests (Suc n) lib self task code tr s =
     (case fixer_forward lib (trained_code_fixer self) task code ''main code'' e w of
        (Inl msg, w') \<Rightarrow>
          (Propagated (StageError CodeFixer msg),
           \<lparr>world = w',
            log = log s @
              [Printed (nl @ ''Running the code...''), Executed code,
               Printed (''Code failed with error: '' @ e),
               Printed ''Re-generating the code with the execution feedback...'',
               Called CodeFixer [task, code, ''main code'', e]]\<rparr>)
      | (Inr fixed_code, w') \<Rightarrow>
          run_code_and_tests n lib self task fixed_code tr
            \<lparr>world = w',
             log = log s @
               [Printed (nl @ ''Running the code...''), Executed code,
                Printed (''Code failed with error: '' @ e),
                Printed ''Re-generating the code with the execution feedback...'',
                Called CodeFixer [task, code, ''main code'', e],
                Printed (nl @ ''Fixed code:'' @ nl @ fixed_code)]\<rparr>)"
  using assms
  by (simp add: exec_eq fix_code_eq print_eq split: prod.splits sum.splits)

text \<open>
  C3. When executing the candidate raises an exception \<open>e\<close>, the next collaborator call is
  the fixer, with the task, the candidate, the text \<open>main code\<close> and \<open>e\<close>; the only text
  executed before it on this entry is the candidate itself, so no test has run. An
  exception of the fixer propagates; otherwise the function is entered again with the
  fixer's answer as the candidate.
\<close>

theorem code_failure_goes_to_repair:
  assumes "sandbox lib code (world s) = (RaisedException e, w)"
  shows "run_code_and_tests (Suc n) lib self task code tr s =
     (case fixer_forward lib (trained_code_fixer self) task code ''main code'' e w of
        (Inl msg, w') \<Rightarrow>
          (Propagated (StageError CodeFixer msg),
           \<lparr>world = w',
            log = log s @
              [Printed (nl @ ''Running the code...''), Executed code,
               Printed (''Code failed with error: '' @ e),
               Printed ''Re-generating the code with the execution feedback...'',
               Called CodeFixer [task, code, ''main code'', e]]\<rparr>)
      | (Inr fixed_code, w') \<Rightarrow>
          run_code_and_tests n lib self task fixed_code tr
            \<lparr>world = w',
             log = log s @
               [Printed (nl @ ''Running the code...''), Executed code,
                Printed (''Code failed with error: '' @ e),
                Printed ''Re-generating the code with the execution feedback...'',
                Called CodeFixer [task, code, ''main code'', e],
                Printed (nl @ ''Fixed code:'' @ nl @ fixed_code)]\<rparr>)"
  using assms by (rule code_raises_step)


text \<open>
  C1. When the candidate returns and the test at position \<open>i\<close> of the list test_1, test_2,
  edge_case_test_1 is the first that raises, with \<open>e\<close>, then exactly the tests up to
  position \<open>i\<close> have been executed, in the order of the list, and the next collaborator
  call is the fixer, with the task, the candidate, the source text of that test and \<open>e\<close>.
  The tests after position \<open>i\<close> are not executed on this entry.
\<close>

theorem first_failing_test_goes_to_repair:
  assumes code_ok: "sandbox lib code (world s) = (Returned, ws ! 0)"
    and i: "i < 3"
    and passed: "\<forall>j<i. sandbox lib (map snd (named_tests tr) ! j) (ws ! j) = (Returned, ws ! Suc j)"
    and failed: "sandbox lib (map snd (named_tests tr) ! i) (ws ! i) = (RaisedException e, w)"
  shows "run_code_and_tests (Suc n) lib self task code tr s =
     (case fixer_forward lib (trained_code_fixer self) task code
             (map snd (named_tests tr) ! i) e w of
        (Inl msg, w') \<Rightarrow>
          (Propagated (StageError CodeFixer msg),
           \<lparr>world = w',
            log = log s @
              [Printed (nl @ ''Running the code...''), Executed code,
               Printed ''Running the tests...''] @
              map Executed (take (Suc i) (map snd (named_tests tr))) @
              [Printed (''Test '' @ map fst (named_tests tr) ! i @ '' failed with error: '' @ e),
               Printed ''Re-generating the code with the execution feedback...'',
               Called CodeFixer [task, code, map snd (named_tests tr) ! i, e]]\<rparr>)
      | (Inr fixed_code, w') \<Rightarrow>
          run_code_and_tests n lib self task fixed_code tr
            \<lparr>world = w',
             log = log s @
               [Printed (nl @ ''Running the code...''), Executed code,
                Printed ''Running the tests...''] @
               map Executed (take (Suc i) (map snd (named_tests tr))) @
               [Printed (''Test '' @ map fst (named_tests tr) ! i @ '' failed with error: '' @ e),
                Printed ''Re-generating the code with the execution feedback...'',
                Called CodeFixer [task, code, map snd (named_tests tr) ! i, e],
                Printed (nl @ ''Fixed code:'' @ nl @ fixed_code)]\<rparr>)"
proof -
  consider "i = 0" | "i = 1" | "i = 2" using i by linarith
  then show ?thesis
  proof cases
    case 1
    with failed have f: "sandbox lib (test_1 tr) (ws ! 0) = (RaisedException e, w)"
      by (simp add: named_tests_def)
    show ?thesis using code_ok f 1
      by (simp add: exec_eq fix_code_eq print_eq named_tests_def split: prod.splits sum.splits)
  next
    case 2
    from passed 2 have p0: "sandbox lib (test_1 tr) (ws ! 0) = (Returned, ws ! 1)"
      by (simp add: named_tests_def)
    from failed 2 have f: "sandbox lib (test_2 tr) (ws ! 1) = (RaisedException e, w)"
      by (simp add: named_tests_def)
    show ?thesis using code_ok p0 f 2
      by (simp add: exec_eq fix_code_eq print_eq named_tests_def split: prod.splits sum.splits)
  next
    case 3
    from passed 3 have p0: "sandbox lib (test_1 tr) (ws ! 0) = (Returned, ws ! 1)"
      by (auto simp: named_tests_def dest: spec [of _ 0])
    from passed 3 have p1: "sandbox lib (test_2 tr) (ws ! 1) = (Returned, ws ! 2)"
      by (auto simp: named_tests_def numeral_2_eq_2 dest: spec [of _ 1])
    from failed 3 have f: "sandbox lib (edge_case_test_1 tr) (ws ! 2) = (RaisedException e, w)"
      by (simp add: named_tests_def)
    show ?thesis using code_ok p0 p1 f 3
      by (simp add: exec_eq fix_code_eq print_eq named_tests_def numeral_2_eq_2
               split: prod.splits sum.splits)
  qed
qed

lemma called_eq:
  "f (world s) = (Inr v, w) \<Longrightarrow>
     called c args f s = (Inr v, \<lparr>world = w, log = log s @ [Called c args]\<rparr>)"
  by (simp add: called_def emit_def)

text \<open>
  C4. When the three synthesis calls answer, the generated candidate returns and the three
  tests return in order, then \<open>generate\<close> completes, for any positive number of allowed
  entries; its last line printed reports success and its trace holds no call of the fixer.
\<close>

theorem clean_first_pass_needs_no_repair:
  assumes sg: "signature_forward lib (trained_signature self) (signature_task task) (world s)
                 = (Inr code_signature, w1)"
    and cd: "code_forward lib (trained_code_gen self) (code_task task) code_signature w1
                 = (Inr code, w2)"
    and ts: "tests_forward lib (trained_unit_test self) (tests_task task) code_signature w2
                 = (Inr tr, w3)"
    and run: "sandbox lib code w3 = (Returned, w4)"
    and t1: "sandbox lib (test_1 tr) w4 = (Returned, w5)"
    and t2: "sandbox lib (test_2 tr) w5 = (Returned, w6)"
    and t3: "sandbox lib (edge_case_test_1 tr) w6 = (Returned, w7)"
  shows "generate (Suc n) lib self task s =
     (Completed,
      \<lparr>world = w7,
       log = log s @
         [Called CodeSignatureGenerator [signature_task task],
          Called CodeGenerator [code_task task, code_signature],
          Called UnitTestGenerator [tests_task task, code_signature],
          Printed (nl @ ''Generated code signature:'' @ nl @ code_signature),
          Printed (nl @ ''Generated code:'' @ nl @ code),
          Printed (nl @ ''Generated tests:''),
          Printed (''test_1: '' @ test_1 tr),
          Printed (''test_2: '' @ test_2 tr),
          Printed (''edge_case_test_1: '' @ edge_case_test_1 tr),
          Printed (nl @ ''Running the code...''), Executed code,
          Printed ''Running the tests...'',
          Executed (test_1 tr), Executed (test_2 tr), Executed (edge_case_test_1 tr),
          Printed ''All generated tests passed'']\<rparr>)"
  using assms
  by (simp add: generate_def called_eq print_results_def exec_eq print_eq named_tests_def)


theorem code_failure_goes_to_repair_witness:
  "sandbox demo_lib ''v0'' (world demo_start) = (RaisedException ''name f is not defined'', [])
   \<and> run_code_and_tests (Suc 0) demo_lib demo_pipeline ''a doubling function'' ''v0''
         demo_tests demo_start
       = (OutOfFuel,
          \<lparr>world = [],
           log =
             [Printed (nl @ ''Running the code...''), Executed ''v0'',
              Printed ''Code failed with error: name f is not defined'',
              Printed ''Re-generating the code with the execution feedback...'',
              Called CodeFixer
                [''a doubling function'', ''v0'', ''main code'', ''name f is not defined''],
              Printed (nl @ ''Fixed code:'' @ nl @ ''v1'')]\<rparr>)"
proof -
  have h: "sandbox demo_lib ''v0'' (world demo_start)
             = (RaisedException ''name f is not defined'', [])"
    by (simp add: demo_lib_def demo_start_def)
  have f: "fixer_forward demo_lib (trained_code_fixer demo_pipeline) ''a doubling function''
             ''v0'' ''main code'' ''name f is not defined'' [] = (Inr ''v1'', [])"
    by (simp add: demo_lib_def)
  show ?thesis
    using h code_failure_goes_to_repair
            [OF h, of 0 demo_pipeline "''a doubling function''" demo_tests]
    by (simp add: f demo_start_def)
qed

theorem first_failing_test_goes_to_repair_witness:
  "sandbox demo_lib ''v1'' (world demo_start) = (Returned, [''v1'', ''v1''] ! 0)
   \<and> (1::nat) < 3
   \<and> sandbox demo_lib (map snd (named_tests demo_tests) ! 0) ([''v1'', ''v1''] ! 0)
       = (Returned, [''v1'', ''v1''] ! Suc 0)
   \<and> sandbox demo_lib (map snd (named_tests demo_tests) ! 1) ([''v1'', ''v1''] ! 1)
       = (RaisedException ''division by zero'', ''v1'')
   \<and> run_code_and_tests (Suc 0) demo_lib demo_pipeline ''a doubling function'' ''v1''
         demo_tests demo_start
       = (OutOfFuel,
          \<lparr>world = ''v1'',
           log =
             [Printed (nl @ ''Running the code...''), Executed ''v1'',
              Printed ''Running the tests...'',
              Executed ''assert f(1) == 1'', Executed ''assert f(0) == 0'',
              Printed ''Test test_2 failed with error: division by zero'',
              Printed ''Re-generating the code with the execution feedback...'',
              Called CodeFixer
                [''a doubling function'', ''v1'', ''assert f(0) == 0'', ''division by zero''],
              Printed (nl @ ''Fixed code:'' @ nl @ ''v2'')]\<rparr>)"
proof -
  have h1: "sandbox demo_lib ''v1'' (world demo_start) = (Returned, [''v1'', ''v1''] ! 0)"
    by (simp add: demo_lib_def demo_start_def)
  have h2: "(1::nat) < 3" by simp
  have h3: "\<forall>j<1. sandbox demo_lib (map snd (named_tests demo_tests) ! j) ([''v1'', ''v1''] ! j)
               = (Returned, [''v1'', ''v1''] ! Suc j)"
    by (simp add: demo_lib_def named_tests_def demo_tests_def)
  have h4: "sandbox demo_lib (map snd (named_tests demo_tests) ! 1) ([''v1'', ''v1''] ! 1)
              = (RaisedException ''division by zero'', ''v1'')"
    by (simp add: demo_lib_def named_tests_def demo_tests_def)
  have f: "fixer_forward demo_lib (trained_code_fixer demo_pipeline) ''a doubling function''
             ''v1'' ''assert f(0) == 0'' ''division by zero'' ''v1'' = (Inr ''v2'', ''v1'')"
    by (simp add: demo_lib_def)
  show ?thesis
    using h1 h2 h3 h4
      first_failing_test_goes_to_repair
        [OF h1 h2 h3 h4, of 0 demo_pipeline "''a doubling function''"]
    by (simp add: f demo_start_def named_tests_def demo_tests_def)
qed

theorem clean_first_pass_needs_no_repair_witness:
  "generate (Suc 0) (demo_lib\<lparr>code_forward := \<lambda>m task sg w. (Inr ''v2'', w)\<rparr>)
     demo_pipeline ''a doubling function'' demo_start
   = (Completed,
      \<lparr>world = ''v2'',
       log =
         [Called CodeSignatureGenerator [signature_task ''a doubling function''],
          Called CodeGenerator [code_task ''a doubling function'', ''def f(n: int) -> int:''],
          Called UnitTestGenerator
            [tests_task ''a doubling function'', ''def f(n: int) -> int:''],
          Printed (nl @ ''Generated code signature:'' @ nl @ ''def f(n: int) -> int:''),
          Printed (nl @ ''Generated code:'' @ nl @ ''v2''),
          Printed (nl @ ''Generated tests:''),
          Printed ''test_1: assert f(1) == 1'',
          Printed ''test_2: assert f(0) == 0'',
          Printed ''edge_case_test_1: assert f(-1) == 0'',
          Printed (nl @ ''Running the code...''), Executed ''v2'',
          Printed ''Running the tests...'',
          Executed ''assert f(1) == 1'', Executed ''assert f(0) == 0'',
          Executed ''assert f(-1) == 0'',
          Printed ''All generated tests passed'']\<rparr>)"
  using clean_first_pass_needs_no_repair
    [of "demo_lib\<lparr>code_forward := \<lambda>m task sg w. (Inr ''v2'', w)\<rparr>" demo_pipeline
        "''a doubling function''" demo_start "''def f(n: int) -> int:''" "[]" "''v2''" "[]"
        demo_tests "[]" "''v2''" "''v2''" "''v2''" "''v2''" 0]
  by (simp add: demo_lib_def demo_start_def demo_tests_def)

section \<open>The repair loop has no bound\<close>

lemma repairs_append [simp]: "repairs (xs @ ys) = repairs xs + repairs ys"
  by (simp add: repairs_def)


lemma repairs_Cons [simp]: "repairs (e # evs) = (if is_repair e then 1 else 0) + repairs evs"
  by (simp add: repairs_def)









section \<open>The trace of the repair loop\<close>














section \<open>Synthesis happens once\<close>











section \<open>The order of the two synthesis calls\<close>

lemma world_relog [simp]: "world (relog l s) = world s"
  by (simp add: relog_def)

lemma log_relog [simp]: "log (relog l s) = l @ log s"
  by (simp add: relog_def)












end
